theory Spec2Isabelle
  imports Main
begin

section \<open>Data model of the ApplicationSnapshot API type\<close>

text \<open>
  \<^verbatim>\<open>metav1.Time\<close> wraps Go's \<^verbatim>\<open>time.Time\<close>. An instant is modelled by its offset from
  Go's zero instant (January 1, year 1, 00:00:00 UTC), so the zero \<^verbatim>\<open>Time\<close> is \<open>0\<close>.
  A \<^verbatim>\<open>*metav1.Time\<close> is a \<open>Time option\<close>, \<open>None\<close> being the nil pointer.
\<close>

type_synonym Time = int

definition Time_IsZero :: "Time \<Rightarrow> bool" where
  "Time_IsZero t = (t = 0)"

text \<open>The pointer receiver \<^verbatim>\<open>func (t *Time) IsZero()\<close>: nil counts as zero.\<close>

definition IsZero :: "Time option \<Rightarrow> bool" where
  "IsZero p = (case p of None \<Rightarrow> True | Some t \<Rightarrow> Time_IsZero t)"

text \<open>\<^verbatim>\<open>metav1.ConditionStatus\<close> with its three constants.\<close>

datatype ConditionStatus = ConditionTrue | ConditionFalse | ConditionUnknown

text \<open>
  \<^verbatim>\<open>metav1.Condition\<close>. Its fields \<^verbatim>\<open>Type\<close> and \<^verbatim>\<open>Status\<close> carry the suffix
  \<open>_cond\<close> here, the plain names being those of the snapshot's own fields.
\<close>

record Condition =
  Type_cond :: string
  Status_cond :: ConditionStatus
  ObservedGeneration :: int
  LastTransitionTime :: Time
  Reason :: string
  Message :: string

type_synonym ApplicationSnapshotReason = string

definition applicationSnapshotConditionType :: string where
  "applicationSnapshotConditionType = ''Succeeded''"

definition ApplicationSnapshotReasonInitialized :: ApplicationSnapshotReason where
  "ApplicationSnapshotReasonInitialized = ''Initialized''"

definition ApplicationSnapshotReasonValidationError :: ApplicationSnapshotReason where
  "ApplicationSnapshotReasonValidationError = ''Error''"

definition ApplicationSnapshotReasonTestsFailed :: ApplicationSnapshotReason where
  "ApplicationSnapshotReasonTestsFailed = ''TestsFailed''"

definition ApplicationSnapshotReasonTestsRunning :: ApplicationSnapshotReason where
  "ApplicationSnapshotReasonTestsRunning = ''TestsRunning''"

definition ApplicationSnapshotReasonSucceeded :: ApplicationSnapshotReason where
  "ApplicationSnapshotReasonSucceeded = ''Succeeded''"

definition String :: "ApplicationSnapshotReason \<Rightarrow> string" where
  "String asr = asr"

record ApplicationSnapshotComponent =
  Name :: string
  ContainerImage :: string

text \<open>\<^verbatim>\<open>UnstableFields\<close> is a pointer to raw JSON bytes.\<close>

record SnapshotArtifacts =
  UnstableFields :: "string option"

record ApplicationSnapshotSpec =
  Application :: string
  DisplayName :: string
  DisplayDescription :: string
  Type :: string
  Components :: "ApplicationSnapshotComponent list"
  Artifacts :: SnapshotArtifacts

record ApplicationSnapshotStatus =
  StartTime :: "Time option"
  CompletionTime :: "Time option"
  Conditions :: "Condition list"
  ReleasePipelineRun :: string

text \<open>
  The embedded \<^verbatim>\<open>TypeMeta\<close> and \<^verbatim>\<open>ObjectMeta\<close> are never read or written by the
  methods below; they live in the record's extension part.
\<close>

record ApplicationSnapshot =
  Spec :: ApplicationSnapshotSpec
  Status :: ApplicationSnapshotStatus

section \<open>The condition helpers of k8s.io/apimachinery/pkg/api/meta\<close>

text \<open>
  Modelled from the spec: \<^verbatim>\<open>meta.FindStatusCondition\<close> of k8s.io/apimachinery is called
  by the source but is not part of it. It scans the slice from the front and returns a
  pointer to the first element of the given type, nil when there is none. The pointer
  into the slice is the element's index.
\<close>

fun FindStatusCondition :: "Condition list \<Rightarrow> string \<Rightarrow> nat option" where
  "FindStatusCondition [] conditionType = None"
| "FindStatusCondition (c # cs) conditionType =
     (if Type_cond c = conditionType then Some 0
      else map_option Suc (FindStatusCondition cs conditionType))"

text \<open>
  Modelled from the spec: \<^verbatim>\<open>meta.IsStatusConditionPresentAndEqual\<close> and
  \<^verbatim>\<open>meta.IsStatusConditionTrue\<close> of k8s.io/apimachinery, a scan of their own: the first
  element of the given type decides, and no such element gives false.
\<close>

fun IsStatusConditionPresentAndEqual ::
  "Condition list \<Rightarrow> string \<Rightarrow> ConditionStatus \<Rightarrow> bool" where
  "IsStatusConditionPresentAndEqual [] conditionType status = False"
| "IsStatusConditionPresentAndEqual (c # cs) conditionType status =
     (if Type_cond c = conditionType then Status_cond c = status
      else IsStatusConditionPresentAndEqual cs conditionType status)"

definition IsStatusConditionTrue :: "Condition list \<Rightarrow> string \<Rightarrow> bool" where
  "IsStatusConditionTrue conditions conditionType =
     IsStatusConditionPresentAndEqual conditions conditionType ConditionTrue"

text \<open>
  Modelled from the spec: \<^verbatim>\<open>meta.SetStatusCondition\<close> of k8s.io/apimachinery, the upsert
  of a condition by type. With no element of the new condition's type the new condition
  is appended, stamped with the clock reading when it carries no transition time. An
  existing element is updated through the pointer \<^verbatim>\<open>FindStatusCondition\<close> returned: status
  and transition time only when the status differs, reason, message and observed
  generation always. \<open>now\<close> is what \<^verbatim>\<open>time.Now()\<close> returns during the call. The slice
  pointer the source passes is \<^verbatim>\<open>&a.Status.Conditions\<close>, never nil.
\<close>

definition SetStatusCondition :: "Time \<Rightarrow> Condition list \<Rightarrow> Condition \<Rightarrow> Condition list" where
  "SetStatusCondition now conditions newCondition =
     (case FindStatusCondition conditions (Type_cond newCondition) of
        None \<Rightarrow>
          conditions @
            [if Time_IsZero (LastTransitionTime newCondition)
             then newCondition\<lparr>LastTransitionTime := now\<rparr>
             else newCondition]
      | Some i \<Rightarrow>
          (let existingCondition = conditions ! i;
               existingCondition =
                 (if Status_cond existingCondition \<noteq> Status_cond newCondition
                  then existingCondition
                    \<lparr>Status_cond := Status_cond newCondition,
                     LastTransitionTime :=
                       (if \<not> Time_IsZero (LastTransitionTime newCondition)
                        then LastTransitionTime newCondition else now)\<rparr>
                  else existingCondition)
           in conditions[i := existingCondition
                \<lparr>Reason := Reason newCondition,
                 Message := Message newCondition,
                 ObservedGeneration := ObservedGeneration newCondition\<rparr>]))"

section \<open>The methods of ApplicationSnapshot\<close>

text \<open>
  Each mutator takes the receiver and returns it updated. The readings of the wall clock
  are parameters, in the order the method takes them: \<open>now\<close> is the reading stored in
  the status, \<open>now'\<close> the one taken inside \<^verbatim>\<open>meta.SetStatusCondition\<close>.
\<close>

definition HasStarted :: "ApplicationSnapshot \<Rightarrow> bool" where
  "HasStarted a = (StartTime (Status a) \<noteq> None \<and> \<not> IsZero (StartTime (Status a)))"

definition HasSucceeded :: "ApplicationSnapshot \<Rightarrow> bool" where
  "HasSucceeded a =
     (\<not> IsStatusConditionTrue (Conditions (Status a)) applicationSnapshotConditionType)"

definition IsDone :: "ApplicationSnapshot \<Rightarrow> bool" where
  "IsDone a =
     (case FindStatusCondition (Conditions (Status a)) applicationSnapshotConditionType of
        Some i \<Rightarrow> Status_cond (Conditions (Status a) ! i) \<noteq> ConditionUnknown
      | None \<Rightarrow> False)"

text \<open>
  The composite literal of the source leaves \<^verbatim>\<open>ObservedGeneration\<close> and
  \<^verbatim>\<open>LastTransitionTime\<close> at their zero values.
\<close>

definition setStatusConditionWithMessage ::
  "Time \<Rightarrow> ConditionStatus \<Rightarrow> ApplicationSnapshotReason \<Rightarrow> string \<Rightarrow>
   ApplicationSnapshot \<Rightarrow> ApplicationSnapshot" where
  "setStatusConditionWithMessage now' status reason message a =
     a\<lparr>Status := (Status a)\<lparr>Conditions :=
         SetStatusCondition now' (Conditions (Status a))
           \<lparr>Type_cond = applicationSnapshotConditionType,
            Status_cond = status,
            ObservedGeneration = 0,
            LastTransitionTime = 0,
            Reason = String reason,
            Message = message\<rparr>\<rparr>\<rparr>"

definition setStatusCondition ::
  "Time \<Rightarrow> ConditionStatus \<Rightarrow> ApplicationSnapshotReason \<Rightarrow>
   ApplicationSnapshot \<Rightarrow> ApplicationSnapshot" where
  "setStatusCondition now' status reason a =
     setStatusConditionWithMessage now' status reason '''' a"

definition MarkFailed ::
  "Time \<Rightarrow> Time \<Rightarrow> ApplicationSnapshotReason \<Rightarrow> string \<Rightarrow>
   ApplicationSnapshot \<Rightarrow> ApplicationSnapshot" where
  "MarkFailed now now' reason message a =
     (if IsDone a \<and> CompletionTime (Status a) \<noteq> None then a
      else setStatusConditionWithMessage now' ConditionFalse reason message
             (a\<lparr>Status := (Status a)\<lparr>CompletionTime := Some now\<rparr>\<rparr>))"

definition MarkInvalid ::
  "Time \<Rightarrow> ApplicationSnapshotReason \<Rightarrow> string \<Rightarrow>
   ApplicationSnapshot \<Rightarrow> ApplicationSnapshot" where
  "MarkInvalid now' reason message a =
     (if IsDone a then a
      else setStatusConditionWithMessage now' ConditionFalse reason message a)"

definition MarkRunning :: "Time \<Rightarrow> Time \<Rightarrow> ApplicationSnapshot \<Rightarrow> ApplicationSnapshot" where
  "MarkRunning now now' a =
     (if HasStarted a \<and> StartTime (Status a) \<noteq> None then a
      else setStatusCondition now' ConditionUnknown ApplicationSnapshotReasonTestsRunning
             (a\<lparr>Status := (Status a)\<lparr>StartTime := Some now\<rparr>\<rparr>))"

definition MarkSucceeded :: "Time \<Rightarrow> Time \<Rightarrow> ApplicationSnapshot \<Rightarrow> ApplicationSnapshot" where
  "MarkSucceeded now now' a =
     (if IsDone a \<and> CompletionTime (Status a) \<noteq> None then a
      else setStatusCondition now' ConditionTrue ApplicationSnapshotReasonSucceeded
             (a\<lparr>Status := (Status a)\<lparr>CompletionTime := Some now\<rparr>\<rparr>))"

section \<open>Vocabulary of the properties\<close>

text \<open>
  The Succeeded condition of a snapshot: the first record of type \<^verbatim>\<open>"Succeeded"\<close> in
  \<^verbatim>\<open>status.conditions\<close>, if there is one.
\<close>

definition succeededCondition :: "ApplicationSnapshot \<Rightarrow> Condition option" where
  "succeededCondition a =
     find (\<lambda>c. Type_cond c = ''Succeeded'') (Conditions (Status a))"

text \<open>The data model's invariant: at most one condition record per type value.\<close>

definition onePerType :: "Condition list \<Rightarrow> bool" where
  "onePerType conditions = distinct (map Type_cond conditions)"

text \<open>A fresh snapshot: no conditions, nil start and completion time.\<close>

definition fresh :: "ApplicationSnapshot \<Rightarrow> bool" where
  "fresh a =
     (Conditions (Status a) = [] \<and> StartTime (Status a) = None \<and>
      CompletionTime (Status a) = None)"

text \<open>
  The calls a client can make on a snapshot, each with the clock readings it takes and
  its arguments, and the run of a sequence of calls.
\<close>

datatype operation =
    OpMarkRunning Time Time
  | OpMarkFailed Time Time ApplicationSnapshotReason string
  | OpMarkInvalid Time ApplicationSnapshotReason string
  | OpMarkSucceeded Time Time

fun exec :: "operation \<Rightarrow> ApplicationSnapshot \<Rightarrow> ApplicationSnapshot" where
  "exec (OpMarkRunning now now') a = MarkRunning now now' a"
| "exec (OpMarkFailed now now' reason message) a = MarkFailed now now' reason message a"
| "exec (OpMarkInvalid now' reason message) a = MarkInvalid now' reason message a"
| "exec (OpMarkSucceeded now now') a = MarkSucceeded now now' a"

fun run :: "operation list \<Rightarrow> ApplicationSnapshot \<Rightarrow> ApplicationSnapshot" where
  "run [] a = a"
| "run (op # ops) a = run ops (exec op a)"

fun isMarkRunning :: "operation \<Rightarrow> bool" where
  "isMarkRunning (OpMarkRunning now now') = True"
| "isMarkRunning _ = False"

text \<open>The transition time of the Succeeded condition, if the condition is there.\<close>

definition lastTransition :: "ApplicationSnapshot \<Rightarrow> Time option" where
  "lastTransition a = map_option LastTransitionTime (succeededCondition a)"

section \<open>Example snapshots\<close>

text \<open>
  \<open>freshSnapshot\<close> is a snapshot as created; \<open>failedSnapshot\<close> is what
  \<^verbatim>\<open>MarkFailed("Error", "x")\<close> makes of it when the clock reads 5 and then 6;
  \<open>readySnapshot\<close> carries a condition of another type only.
\<close>

definition exampleSpec :: ApplicationSnapshotSpec where
  "exampleSpec =
     \<lparr>Application = ''app'', DisplayName = '''', DisplayDescription = '''', Type = '''',
      Components = [\<lparr>Name = ''web'', ContainerImage = ''quay.io/example/web:1''\<rparr>],
      Artifacts = \<lparr>UnstableFields = None\<rparr>\<rparr>"

definition freshSnapshot :: ApplicationSnapshot where
  "freshSnapshot =
     \<lparr>Spec = exampleSpec,
      Status = \<lparr>StartTime = None, CompletionTime = None, Conditions = [],
                ReleasePipelineRun = ''''\<rparr>\<rparr>"

definition failedSnapshot :: ApplicationSnapshot where
  "failedSnapshot =
     \<lparr>Spec = exampleSpec,
      Status = \<lparr>StartTime = None, CompletionTime = Some 5,
                Conditions =
                  [\<lparr>Type_cond = ''Succeeded'', Status_cond = ConditionFalse,
                    ObservedGeneration = 0, LastTransitionTime = 6,
                    Reason = ''Error'', Message = ''x''\<rparr>],
                ReleasePipelineRun = ''''\<rparr>\<rparr>"

definition readySnapshot :: ApplicationSnapshot where
  "readySnapshot =
     \<lparr>Spec = exampleSpec,
      Status = \<lparr>StartTime = Some 3, CompletionTime = None,
                Conditions =
                  [\<lparr>Type_cond = ''Ready'', Status_cond = ConditionTrue,
                    ObservedGeneration = 0, LastTransitionTime = 3,
                    Reason = ''Up'', Message = ''''\<rparr>],
                ReleasePipelineRun = ''''\<rparr>\<rparr>"

section \<open>The lookup and the upsert\<close>

lemma Find_Some_props:
  "FindStatusCondition cs t = Some i \<Longrightarrow>
     i < length cs \<and> Type_cond (cs ! i) = t \<and> (\<forall>j<i. Type_cond (cs ! j) \<noteq> t)"
proof (induction cs arbitrary: i)
  case Nil
  then show ?case by simp
next
  case (Cons c cs)
  show ?case
  proof (cases "Type_cond c = t")
    case True
    with Cons.prems show ?thesis by simp
  next
    case False
    with Cons.prems obtain k where k: "FindStatusCondition cs t = Some k" "i = Suc k"
      by auto
    from Cons.IH [OF k(1)] False k(2) show ?thesis
      by (auto simp: nth_Cons split: nat.splits)
  qed
qed

lemma Find_None_iff:
  "FindStatusCondition cs t = None \<longleftrightarrow> t \<notin> Type_cond ` set cs"
  by (induction cs) auto

text \<open>The pointer the lookup returns points at the first record of the type.\<close>

lemma Find_is_find:
  "map_option (nth cs) (FindStatusCondition cs t) = find (\<lambda>c. Type_cond c = t) cs"
  by (induction cs) (auto simp: option.map_comp comp_def)

lemma Find_Some_find:
  "FindStatusCondition cs t = Some i \<Longrightarrow> find (\<lambda>c. Type_cond c = t) cs = Some (cs ! i)"
  using Find_is_find [of cs t] by simp

lemma Find_None_find:
  "FindStatusCondition cs t = None \<Longrightarrow> find (\<lambda>c. Type_cond c = t) cs = None"
  using Find_is_find [of cs t] by simp

lemma find_Some_Find:
  "find (\<lambda>c. Type_cond c = t) cs = Some c \<Longrightarrow>
     \<exists>i. FindStatusCondition cs t = Some i \<and> cs ! i = c"
  using Find_is_find [of cs t] by (cases "FindStatusCondition cs t") auto

lemma Find_cong_types:
  "map Type_cond cs = map Type_cond cs' \<Longrightarrow>
     FindStatusCondition cs t = FindStatusCondition cs' t"
proof (induction cs arbitrary: cs')
  case Nil
  then show ?case by simp
next
  case (Cons c cs)
  then obtain d ds where "cs' = d # ds" by (cases cs') auto
  with Cons show ?case by auto
qed

lemma Find_append_new:
  "FindStatusCondition cs t = None \<Longrightarrow> Type_cond c = t \<Longrightarrow>
     FindStatusCondition (cs @ [c]) t = Some (length cs)"
  by (induction cs) (auto split: if_splits)

lemma PresentAndEqual_find:
  "IsStatusConditionPresentAndEqual cs t s \<longleftrightarrow>
     (\<exists>c. find (\<lambda>c. Type_cond c = t) cs = Some c \<and> Status_cond c = s)"
  by (induction cs) auto

lemma find_unique:
  "distinct (map Type_cond cs) \<Longrightarrow> c \<in> set cs \<Longrightarrow> Type_cond c = t \<Longrightarrow>
     find (\<lambda>c. Type_cond c = t) cs = Some c"
proof (induction cs)
  case Nil
  then show ?case by simp
next
  case (Cons d cs)
  then show ?case by (cases "Type_cond d = t") (auto simp: image_iff)
qed

lemma find_type_member:
  "find (\<lambda>c. Type_cond c = t) cs = Some c \<Longrightarrow> c \<in> set cs \<and> Type_cond c = t"
  by (induction cs) (auto split: if_splits)

lemma Set_types:
  "map Type_cond (SetStatusCondition now cs nc) =
     (case FindStatusCondition cs (Type_cond nc) of
        None \<Rightarrow> map Type_cond cs @ [Type_cond nc]
      | Some i \<Rightarrow> map Type_cond cs)"
proof (cases "FindStatusCondition cs (Type_cond nc)")
  case None
  then show ?thesis by (simp add: SetStatusCondition_def)
next
  case (Some i)
  from Find_Some_props [OF Some] have "i < length cs" "Type_cond (cs ! i) = Type_cond nc"
    by simp_all
  with Some show ?thesis
    by (simp add: SetStatusCondition_def Let_def map_update list_update_same_conv)
qed

lemma Set_new:
  assumes "FindStatusCondition cs (Type_cond nc) = None"
  shows "find (\<lambda>c. Type_cond c = Type_cond nc) (SetStatusCondition now cs nc) =
           Some (if Time_IsZero (LastTransitionTime nc)
                 then nc\<lparr>LastTransitionTime := now\<rparr> else nc)"
proof -
  let ?c = "if Time_IsZero (LastTransitionTime nc) then nc\<lparr>LastTransitionTime := now\<rparr> else nc"
  have s: "SetStatusCondition now cs nc = cs @ [?c]"
    using assms by (simp add: SetStatusCondition_def)
  have "FindStatusCondition (cs @ [?c]) (Type_cond nc) = Some (length cs)"
    using assms by (intro Find_append_new) auto
  from Find_Some_find [OF this] s show ?thesis by simp
qed

lemma Set_existing:
  assumes "FindStatusCondition cs (Type_cond nc) = Some i"
  shows "find (\<lambda>c. Type_cond c = Type_cond nc) (SetStatusCondition now cs nc) =
           Some ((if Status_cond (cs ! i) \<noteq> Status_cond nc
                  then (cs ! i)\<lparr>Status_cond := Status_cond nc,
                         LastTransitionTime :=
                           (if \<not> Time_IsZero (LastTransitionTime nc)
                            then LastTransitionTime nc else now)\<rparr>
                  else cs ! i)
                 \<lparr>Reason := Reason nc, Message := Message nc,
                  ObservedGeneration := ObservedGeneration nc\<rparr>)"
    and "SetStatusCondition now cs nc = cs[i := SetStatusCondition now cs nc ! i]"
proof -
  from Find_Some_props [OF assms] have i: "i < length cs" by simp
  have "map Type_cond (SetStatusCondition now cs nc) = map Type_cond cs"
    using assms by (simp add: Set_types)
  from Find_cong_types [OF this] assms
  have "FindStatusCondition (SetStatusCondition now cs nc) (Type_cond nc) = Some i" by simp
  from Find_Some_find [OF this] assms i
  show "find (\<lambda>c. Type_cond c = Type_cond nc) (SetStatusCondition now cs nc) =
           Some ((if Status_cond (cs ! i) \<noteq> Status_cond nc
                  then (cs ! i)\<lparr>Status_cond := Status_cond nc,
                         LastTransitionTime :=
                           (if \<not> Time_IsZero (LastTransitionTime nc)
                            then LastTransitionTime nc else now)\<rparr>
                  else cs ! i)
                 \<lparr>Reason := Reason nc, Message := Message nc,
                  ObservedGeneration := ObservedGeneration nc\<rparr>)"
    by (simp add: SetStatusCondition_def Let_def)
  show "SetStatusCondition now cs nc = cs[i := SetStatusCondition now cs nc ! i]"
    using assms i by (simp add: SetStatusCondition_def Let_def)
qed

section \<open>The upsert on a snapshot\<close>

lemma IsDone_succeededCondition:
  "IsDone a \<longleftrightarrow> (\<exists>c. succeededCondition a = Some c \<and> Status_cond c \<noteq> ConditionUnknown)"
proof (cases "FindStatusCondition (Conditions (Status a)) ''Succeeded''")
  case None
  from Find_None_find [OF None] None show ?thesis
    by (simp add: IsDone_def succeededCondition_def applicationSnapshotConditionType_def)
next
  case (Some i)
  from Find_Some_find [OF Some] Some show ?thesis
    by (simp add: IsDone_def succeededCondition_def applicationSnapshotConditionType_def)
qed

lemma set_frame:
  "StartTime (Status (setStatusConditionWithMessage now' s r m a)) = StartTime (Status a)"
  "CompletionTime (Status (setStatusConditionWithMessage now' s r m a)) =
     CompletionTime (Status a)"
  by (simp_all add: setStatusConditionWithMessage_def)

lemma set_absent:
  assumes "succeededCondition a = None"
  shows "succeededCondition (setStatusConditionWithMessage now' s r m a) =
           Some \<lparr>Type_cond = ''Succeeded'', Status_cond = s, ObservedGeneration = 0,
                 LastTransitionTime = now', Reason = r, Message = m\<rparr>"
proof -
  let ?nc = "\<lparr>Type_cond = ''Succeeded'', Status_cond = s, ObservedGeneration = 0,
              LastTransitionTime = 0, Reason = r, Message = m\<rparr>"
  have "FindStatusCondition (Conditions (Status a)) (Type_cond ?nc) = None"
    using assms find_Some_Find [of "''Succeeded''" "Conditions (Status a)"]
      Find_is_find [of "Conditions (Status a)" "''Succeeded''"]
    by (simp add: succeededCondition_def)
  from Set_new [OF this, of now'] show ?thesis
    by (simp add: succeededCondition_def setStatusConditionWithMessage_def
        applicationSnapshotConditionType_def String_def Time_IsZero_def)
qed

lemma set_present:
  assumes "succeededCondition a = Some c"
  shows "succeededCondition (setStatusConditionWithMessage now' s r m a) =
           Some ((if Status_cond c \<noteq> s
                  then c\<lparr>Status_cond := s, LastTransitionTime := now'\<rparr> else c)
                 \<lparr>Reason := r, Message := m, ObservedGeneration := 0\<rparr>)"
proof -
  let ?nc = "\<lparr>Type_cond = ''Succeeded'', Status_cond = s, ObservedGeneration = 0,
              LastTransitionTime = 0, Reason = r, Message = m\<rparr>"
  from assms obtain i where
    i: "FindStatusCondition (Conditions (Status a)) (Type_cond ?nc) = Some i"
       "Conditions (Status a) ! i = c"
    using find_Some_Find [of "''Succeeded''" "Conditions (Status a)" c]
    by (auto simp: succeededCondition_def)
  from Set_existing(1) [OF i(1), of now'] i(2) show ?thesis
    by (simp add: succeededCondition_def setStatusConditionWithMessage_def
        applicationSnapshotConditionType_def String_def Time_IsZero_def)
qed

lemma set_status:
  "\<exists>c. succeededCondition (setStatusConditionWithMessage now' s r m a) = Some c \<and>
       Status_cond c = s \<and> Reason c = r \<and> Message c = m"
proof (cases "succeededCondition a")
  case None
  from set_absent [OF None] show ?thesis by simp
next
  case (Some c)
  from set_present [OF Some] show ?thesis by simp
qed

lemma set_types:
  "map Type_cond (Conditions (Status (setStatusConditionWithMessage now' s r m a))) =
     (if ''Succeeded'' \<in> Type_cond ` set (Conditions (Status a))
      then map Type_cond (Conditions (Status a))
      else map Type_cond (Conditions (Status a)) @ [''Succeeded''])"
  using Find_None_iff [of "Conditions (Status a)" "''Succeeded''"]
  by (cases "FindStatusCondition (Conditions (Status a)) ''Succeeded''")
     (simp_all add: setStatusConditionWithMessage_def Set_types
        applicationSnapshotConditionType_def)

lemma cond_eq_frame:
  "Conditions (Status (a\<lparr>Status := (Status a)\<lparr>CompletionTime := t\<rparr>\<rparr>)) = Conditions (Status a)"
  "Conditions (Status (a\<lparr>Status := (Status a)\<lparr>StartTime := t\<rparr>\<rparr>)) = Conditions (Status a)"
  by simp_all

lemma succeededCondition_frame:
  "succeededCondition (a\<lparr>Status := (Status a)\<lparr>CompletionTime := t\<rparr>\<rparr>) = succeededCondition a"
  "succeededCondition (a\<lparr>Status := (Status a)\<lparr>StartTime := t\<rparr>\<rparr>) = succeededCondition a"
  by (simp_all add: succeededCondition_def)

section \<open>The guards of the mutators\<close>

lemma started_noop: "HasStarted a \<Longrightarrow> MarkRunning now now' a = a"
  by (simp add: MarkRunning_def HasStarted_def)

lemma finished_noop:
  assumes "IsDone a" "CompletionTime (Status a) \<noteq> None"
  shows "MarkFailed now now' r m a = a" "MarkSucceeded now now' a = a"
    "MarkInvalid now' r m a = a"
  using assms by (simp_all add: MarkFailed_def MarkSucceeded_def MarkInvalid_def)

lemma MarkSucceeded_done:
  "IsDone (MarkSucceeded now now' a) \<and>
   CompletionTime (Status (MarkSucceeded now now' a)) \<noteq> None"
proof (cases "IsDone a \<and> CompletionTime (Status a) \<noteq> None")
  case True
  then show ?thesis by (simp add: MarkSucceeded_def)
next
  case False
  let ?b = "a\<lparr>Status := (Status a)\<lparr>CompletionTime := Some now\<rparr>\<rparr>"
  from set_status [of now' ConditionTrue ApplicationSnapshotReasonSucceeded "''''" ?b]
  have "IsDone (setStatusConditionWithMessage now' ConditionTrue
          ApplicationSnapshotReasonSucceeded '''' ?b)"
    unfolding IsDone_succeededCondition by auto
  with False show ?thesis
    by (simp add: MarkSucceeded_def setStatusCondition_def set_frame)
qed

lemma fresh_absent: "fresh a \<Longrightarrow> succeededCondition a = None \<and> \<not> IsDone a"
  by (simp add: fresh_def IsDone_succeededCondition succeededCondition_def)

lemma set_onePerType:
  "onePerType (Conditions (Status a)) \<Longrightarrow>
     onePerType (Conditions (Status (setStatusConditionWithMessage now' s r m a)))"
  by (simp add: onePerType_def set_types)

lemma set_in_place:
  assumes "FindStatusCondition (Conditions (Status a)) ''Succeeded'' = Some i"
  shows "Conditions (Status (setStatusConditionWithMessage now' s r m a)) =
           (Conditions (Status a))
             [i := Conditions (Status (setStatusConditionWithMessage now' s r m a)) ! i]"
proof -
  let ?nc = "\<lparr>Type_cond = ''Succeeded'', Status_cond = s, ObservedGeneration = 0,
              LastTransitionTime = 0, Reason = String r, Message = m\<rparr>"
  from assms have "FindStatusCondition (Conditions (Status a)) (Type_cond ?nc) = Some i"
    by simp
  from Set_existing(2) [OF this, of now'] show ?thesis
    by (simp add: setStatusConditionWithMessage_def applicationSnapshotConditionType_def)
qed

text \<open>Every call either returns at its guard or ends in the upsert.\<close>

lemma exec_cases:
  "exec op a = a \<or>
   (\<exists>t s r m b. exec op a = setStatusConditionWithMessage t s r m b \<and>
        Conditions (Status b) = Conditions (Status a))"
proof (cases op)
  case (OpMarkRunning now now')
  show ?thesis
  proof (cases "HasStarted a")
    case True
    with OpMarkRunning show ?thesis by (simp add: started_noop)
  next
    case False
    with OpMarkRunning have "exec op a =
        setStatusConditionWithMessage now' ConditionUnknown
          ApplicationSnapshotReasonTestsRunning ''''
          (a\<lparr>Status := (Status a)\<lparr>StartTime := Some now\<rparr>\<rparr>)"
      by (simp add: MarkRunning_def setStatusCondition_def)
    with cond_eq_frame(2) [where a = a and t = "Some now"] show ?thesis by blast
  qed
next
  case (OpMarkFailed now now' reason message)
  show ?thesis
  proof (cases "IsDone a \<and> CompletionTime (Status a) \<noteq> None")
    case True
    with OpMarkFailed show ?thesis by (simp add: MarkFailed_def)
  next
    case False
    with OpMarkFailed have "exec op a =
        setStatusConditionWithMessage now' ConditionFalse reason message
          (a\<lparr>Status := (Status a)\<lparr>CompletionTime := Some now\<rparr>\<rparr>)"
      by (auto simp: MarkFailed_def)
    with cond_eq_frame(1) [where a = a and t = "Some now"] show ?thesis by blast
  qed
next
  case (OpMarkInvalid now' reason message)
  show ?thesis
  proof (cases "IsDone a")
    case True
    with OpMarkInvalid show ?thesis by (simp add: MarkInvalid_def)
  next
    case False
    with OpMarkInvalid have "exec op a =
        setStatusConditionWithMessage now' ConditionFalse reason message a"
      by (simp add: MarkInvalid_def)
    then show ?thesis by blast
  qed
next
  case (OpMarkSucceeded now now')
  show ?thesis
  proof (cases "IsDone a \<and> CompletionTime (Status a) \<noteq> None")
    case True
    with OpMarkSucceeded show ?thesis by (simp add: MarkSucceeded_def)
  next
    case False
    with OpMarkSucceeded have "exec op a =
        setStatusConditionWithMessage now' ConditionTrue
          ApplicationSnapshotReasonSucceeded ''''
          (a\<lparr>Status := (Status a)\<lparr>CompletionTime := Some now\<rparr>\<rparr>)"
      by (auto simp: MarkSucceeded_def setStatusCondition_def)
    with cond_eq_frame(1) [where a = a and t = "Some now"] show ?thesis by blast
  qed
qed

text \<open>The definitions a concrete run unfolds.\<close>

lemmas eval_defs =
  MarkRunning_def MarkFailed_def MarkInvalid_def MarkSucceeded_def
  setStatusCondition_def setStatusConditionWithMessage_def SetStatusCondition_def
  IsDone_def HasStarted_def HasSucceeded_def IsStatusConditionTrue_def
  IsZero_def Time_IsZero_def applicationSnapshotConditionType_def String_def
  ApplicationSnapshotReasonTestsRunning_def ApplicationSnapshotReasonSucceeded_def
  succeededCondition_def onePerType_def fresh_def lastTransition_def
  exampleSpec_def freshSnapshot_def failedSnapshot_def readySnapshot_def

section \<open>The queries\<close>

text \<open>
  C1. \<^verbatim>\<open>HasSucceeded()\<close> is the negation of "the Succeeded condition is present with
  status True", on every snapshot; the Succeeded condition is the one the lookup reads,
  the first record of that type. With at most one record per type this says that
  \<^verbatim>\<open>HasSucceeded()\<close> is true iff the conditions contain no record of type
  \<^verbatim>\<open>"Succeeded"\<close> with status True.
\<close>

theorem HasSucceeded_negation:
  "(HasSucceeded a \<longleftrightarrow>
      \<not> (\<exists>c. succeededCondition a = Some c \<and> Status_cond c = ConditionTrue)) \<and>
   (onePerType (Conditions (Status a)) \<longrightarrow>
      (HasSucceeded a \<longleftrightarrow>
         \<not> (\<exists>c \<in> set (Conditions (Status a)).
               Type_cond c = ''Succeeded'' \<and> Status_cond c = ConditionTrue)))"
proof -
  have first: "HasSucceeded a \<longleftrightarrow>
      \<not> (\<exists>c. succeededCondition a = Some c \<and> Status_cond c = ConditionTrue)"
    by (simp add: HasSucceeded_def IsStatusConditionTrue_def PresentAndEqual_find
        succeededCondition_def applicationSnapshotConditionType_def)
  have "(\<exists>c. succeededCondition a = Some c \<and> Status_cond c = ConditionTrue) \<longleftrightarrow>
        (\<exists>c \<in> set (Conditions (Status a)).
            Type_cond c = ''Succeeded'' \<and> Status_cond c = ConditionTrue)"
    if "onePerType (Conditions (Status a))"
    using that find_unique [of "Conditions (Status a)" _ "''Succeeded''"]
      find_type_member [of "''Succeeded''" "Conditions (Status a)"]
    unfolding succeededCondition_def onePerType_def by blast
  with first show ?thesis by blast
qed

theorem HasSucceeded_negation_witness:
  "onePerType (Conditions (Status (MarkSucceeded 5 6 freshSnapshot))) \<and>
   (\<exists>c \<in> set (Conditions (Status (MarkSucceeded 5 6 freshSnapshot))).
       Type_cond c = ''Succeeded'' \<and> Status_cond c = ConditionTrue) \<and>
   \<not> HasSucceeded (MarkSucceeded 5 6 freshSnapshot) \<and>
   onePerType (Conditions (Status failedSnapshot)) \<and> HasSucceeded failedSnapshot"
  using HasSucceeded_negation [of "MarkSucceeded 5 6 freshSnapshot"]
    HasSucceeded_negation [of failedSnapshot]
  by (simp add: eval_defs)



section \<open>The transitions\<close>

text \<open>
  C2, as the spec states it: from a terminal state with the completion time set, no
  sequence of calls moves the status of the Succeeded condition. It fails:
  \<^verbatim>\<open>MarkRunning()\<close> is guarded by the start time alone, so on a snapshot that failed
  before it ever ran, it stores the start time and sets the condition to Unknown.
\<close>

theorem terminal_not_sticky_counterexample:
  "failedSnapshot = MarkFailed 5 6 ''Error'' ''x'' freshSnapshot \<and>
   IsDone failedSnapshot \<and> CompletionTime (Status failedSnapshot) = Some 5 \<and>
   map_option Status_cond (succeededCondition failedSnapshot) = Some ConditionFalse \<and>
   map_option Status_cond (succeededCondition (run [OpMarkRunning 7 8] failedSnapshot)) =
     Some ConditionUnknown"
  by (simp add: eval_defs)

text \<open>
  C2, amended. From a terminal state with the completion time set, a sequence of calls
  of \<^verbatim>\<open>MarkRunning\<close>, \<^verbatim>\<open>MarkFailed\<close>, \<^verbatim>\<open>MarkInvalid\<close> and \<^verbatim>\<open>MarkSucceeded\<close> leaves
  the snapshot as it is, and so the status of its Succeeded condition, provided the
  snapshot has started or the sequence holds no \<^verbatim>\<open>MarkRunning\<close>.
\<close>

theorem terminal_sticky:
  assumes "IsDone a" and "CompletionTime (Status a) \<noteq> None"
    and "HasStarted a \<or> (\<forall>op \<in> set ops. \<not> isMarkRunning op)"
  shows "run ops a = a \<and>
         map_option Status_cond (succeededCondition (run ops a)) =
           map_option Status_cond (succeededCondition a)"
proof -
  have step: "exec op a = a" if "HasStarted a \<or> \<not> isMarkRunning op" for op
    using that assms(1,2) by (cases op) (auto simp: started_noop finished_noop)
  from assms(3) have "run ops a = a"
  proof (induction ops)
    case Nil
    show ?case by simp
  next
    case (Cons op ops)
    then have "exec op a = a" by (intro step) auto
    with Cons show ?case by auto
  qed
  then show ?thesis by simp
qed

theorem terminal_sticky_witness:
  "IsDone failedSnapshot \<and> CompletionTime (Status failedSnapshot) \<noteq> None \<and>
   \<not> isMarkRunning (OpMarkSucceeded 7 8) \<and>
   \<not> isMarkRunning (OpMarkInvalid 9 ''Error'' ''y'') \<and>
   \<not> isMarkRunning (OpMarkFailed 10 11 ''TestsFailed'' ''z'') \<and>
   run [OpMarkSucceeded 7 8, OpMarkInvalid 9 ''Error'' ''y'',
        OpMarkFailed 10 11 ''TestsFailed'' ''z''] failedSnapshot = failedSnapshot \<and>
   IsDone (MarkSucceeded 3 4 (MarkRunning 1 2 freshSnapshot)) \<and>
   CompletionTime (Status (MarkSucceeded 3 4 (MarkRunning 1 2 freshSnapshot))) = Some 3 \<and>
   HasStarted (MarkSucceeded 3 4 (MarkRunning 1 2 freshSnapshot)) \<and>
   run [OpMarkRunning 7 8, OpMarkFailed 10 11 ''TestsFailed'' ''z'']
       (MarkSucceeded 3 4 (MarkRunning 1 2 freshSnapshot)) =
     MarkSucceeded 3 4 (MarkRunning 1 2 freshSnapshot)"
  using terminal_sticky [of failedSnapshot
      "[OpMarkSucceeded 7 8, OpMarkInvalid 9 ''Error'' ''y'',
        OpMarkFailed 10 11 ''TestsFailed'' ''z'']"]
    terminal_sticky [of "MarkSucceeded 3 4 (MarkRunning 1 2 freshSnapshot)"
      "[OpMarkRunning 7 8, OpMarkFailed 10 11 ''TestsFailed'' ''z'']"]
  by (simp add: eval_defs)

text \<open>
  C4. After \<^verbatim>\<open>MarkRunning()\<close>, a second \<^verbatim>\<open>MarkRunning()\<close> returns at its guard: the
  snapshot, and with it \<^verbatim>\<open>startTime\<close>, stays as the first call left it, whatever the
  clock reads at the second call. The first call's \<^verbatim>\<open>time.Now()\<close> is a wall-clock
  reading, which is not Go's zero instant of year 1.
\<close>

theorem MarkRunning_twice:
  assumes "\<not> Time_IsZero now1"
  shows "MarkRunning now2 now2' (MarkRunning now1 now1' a) = MarkRunning now1 now1' a \<and>
         StartTime (Status (MarkRunning now2 now2' (MarkRunning now1 now1' a))) =
           StartTime (Status (MarkRunning now1 now1' a))"
proof -
  have "HasStarted (MarkRunning now1 now1' a)"
  proof (cases "HasStarted a")
    case True
    then show ?thesis by (simp add: started_noop)
  next
    case False
    with assms show ?thesis
      by (simp add: MarkRunning_def setStatusCondition_def HasStarted_def set_frame IsZero_def)
  qed
  then show ?thesis by (simp add: started_noop)
qed

theorem MarkRunning_twice_witness:
  "\<not> Time_IsZero 5 \<and>
   StartTime (Status (MarkRunning 5 6 freshSnapshot)) = Some 5 \<and>
   StartTime (Status (MarkRunning 7 8 (MarkRunning 5 6 freshSnapshot))) = Some 5"
  using MarkRunning_twice [of 5 7 8 6 freshSnapshot]
  by (simp add: eval_defs)

text \<open>
  C5. After \<^verbatim>\<open>MarkSucceeded()\<close>, on any snapshot, \<^verbatim>\<open>IsDone()\<close> is true, and a following
  \<^verbatim>\<open>MarkFailed(reason, message)\<close> changes neither the Succeeded condition nor
  \<^verbatim>\<open>completionTime\<close>: it returns the snapshot as it got it.
\<close>

theorem MarkSucceeded_then_MarkFailed:
  "IsDone (MarkSucceeded now now' a) \<and>
   succeededCondition (MarkFailed t t' reason message (MarkSucceeded now now' a)) =
     succeededCondition (MarkSucceeded now now' a) \<and>
   CompletionTime (Status (MarkFailed t t' reason message (MarkSucceeded now now' a))) =
     CompletionTime (Status (MarkSucceeded now now' a)) \<and>
   MarkFailed t t' reason message (MarkSucceeded now now' a) = MarkSucceeded now now' a"
  using MarkSucceeded_done [of now now' a] by (simp add: finished_noop)

text \<open>
  C6. On a snapshot that is not already done with \<^verbatim>\<open>completionTime\<close> set,
  \<^verbatim>\<open>MarkFailed(reason, message)\<close>, and so \<^verbatim>\<open>MarkFailed("Error", "x")\<close>, leaves the
  Succeeded condition with status False, that reason and that message, and
  \<^verbatim>\<open>completionTime\<close> non-nil.
\<close>

theorem MarkFailed_sets_condition:
  assumes "\<not> (IsDone a \<and> CompletionTime (Status a) \<noteq> None)"
  shows "(\<exists>c. succeededCondition (MarkFailed now now' reason message a) = Some c \<and>
              Status_cond c = ConditionFalse \<and> Reason c = reason \<and> Message c = message) \<and>
         CompletionTime (Status (MarkFailed now now' reason message a)) \<noteq> None"
  using assms
    set_status [of now' ConditionFalse reason message
                   "a\<lparr>Status := (Status a)\<lparr>CompletionTime := Some now\<rparr>\<rparr>"]
  by (simp add: MarkFailed_def set_frame)

theorem MarkFailed_sets_condition_witness:
  "\<not> (IsDone (MarkRunning 1 2 freshSnapshot) \<and>
       CompletionTime (Status (MarkRunning 1 2 freshSnapshot)) \<noteq> None) \<and>
   succeededCondition (MarkFailed 5 6 ''Error'' ''x'' (MarkRunning 1 2 freshSnapshot)) =
     Some \<lparr>Type_cond = ''Succeeded'', Status_cond = ConditionFalse,
           ObservedGeneration = 0, LastTransitionTime = 6,
           Reason = ''Error'', Message = ''x''\<rparr> \<and>
   CompletionTime (Status (MarkFailed 5 6 ''Error'' ''x'' (MarkRunning 1 2 freshSnapshot))) =
     Some 5"
  using MarkFailed_sets_condition [of "MarkRunning 1 2 freshSnapshot" 5 6 "''Error''" "''x''"]
  by (simp add: eval_defs)

text \<open>
  C7. On a fresh snapshot \<^verbatim>\<open>MarkInvalid(reason, message)\<close>, and so
  \<^verbatim>\<open>MarkInvalid("Error", "x")\<close>, sets the Succeeded condition to status False with that
  reason and message, stamped with the clock reading of the call, and
  \<^verbatim>\<open>completionTime\<close> stays nil. On every snapshot \<^verbatim>\<open>MarkInvalid\<close> leaves
  \<^verbatim>\<open>completionTime\<close> as it was.
\<close>

theorem MarkInvalid_fresh:
  "(fresh a \<longrightarrow>
      succeededCondition (MarkInvalid now' reason message a) =
        Some \<lparr>Type_cond = ''Succeeded'', Status_cond = ConditionFalse,
              ObservedGeneration = 0, LastTransitionTime = now',
              Reason = reason, Message = message\<rparr> \<and>
      CompletionTime (Status (MarkInvalid now' reason message a)) = None) \<and>
   CompletionTime (Status (MarkInvalid now' reason message a)) = CompletionTime (Status a)"
proof -
  have frame:
    "CompletionTime (Status (MarkInvalid now' reason message a)) = CompletionTime (Status a)"
    by (simp add: MarkInvalid_def set_frame)
  have "succeededCondition (MarkInvalid now' reason message a) =
        Some \<lparr>Type_cond = ''Succeeded'', Status_cond = ConditionFalse,
              ObservedGeneration = 0, LastTransitionTime = now',
              Reason = reason, Message = message\<rparr> \<and>
      CompletionTime (Status (MarkInvalid now' reason message a)) = None"
    if "fresh a"
  proof -
    from fresh_absent [OF that] have n: "succeededCondition a = None" "\<not> IsDone a"
      by simp_all
    from that have "CompletionTime (Status a) = None" by (simp add: fresh_def)
    with n set_absent [OF n(1)] frame show ?thesis
      by (simp add: MarkInvalid_def)
  qed
  with frame show ?thesis by blast
qed

theorem MarkInvalid_fresh_witness:
  "fresh freshSnapshot \<and>
   CompletionTime (Status (MarkInvalid 6 ''Error'' ''x'' freshSnapshot)) = None \<and>
   succeededCondition (MarkInvalid 6 ''Error'' ''x'' freshSnapshot) =
     Some \<lparr>Type_cond = ''Succeeded'', Status_cond = ConditionFalse,
           ObservedGeneration = 0, LastTransitionTime = 6,
           Reason = ''Error'', Message = ''x''\<rparr>"
  using MarkInvalid_fresh [of freshSnapshot 6 "''Error''" "''x''"]
  by (simp add: eval_defs)

text \<open>
  C10. On a fresh snapshot, after \<^verbatim>\<open>MarkInvalid(r1, m1)\<close> the snapshot is done with
  \<^verbatim>\<open>completionTime\<close> still nil, so a following \<^verbatim>\<open>MarkFailed(r2, m2)\<close> is not a no-op:
  it sets \<^verbatim>\<open>completionTime\<close> to the clock reading and overwrites the reason and
  message of the Succeeded condition with \<open>r2\<close> and \<open>m2\<close>; status and transition
  time stay those \<^verbatim>\<open>MarkInvalid\<close> wrote.
\<close>

theorem MarkInvalid_then_MarkFailed:
  assumes "fresh a"
  shows "IsDone (MarkInvalid t' r1 m1 a) \<and>
         CompletionTime (Status (MarkInvalid t' r1 m1 a)) = None \<and>
         MarkFailed now now' r2 m2 (MarkInvalid t' r1 m1 a) \<noteq> MarkInvalid t' r1 m1 a \<and>
         CompletionTime (Status (MarkFailed now now' r2 m2 (MarkInvalid t' r1 m1 a))) =
           Some now \<and>
         succeededCondition (MarkFailed now now' r2 m2 (MarkInvalid t' r1 m1 a)) =
           Some \<lparr>Type_cond = ''Succeeded'', Status_cond = ConditionFalse,
                 ObservedGeneration = 0, LastTransitionTime = t',
                 Reason = r2, Message = m2\<rparr>"
proof -
  let ?b = "MarkInvalid t' r1 m1 a"
  from fresh_absent [OF assms] have n: "succeededCondition a = None" "\<not> IsDone a"
    by simp_all
  from assms have ct: "CompletionTime (Status a) = None" by (simp add: fresh_def)
  from n have b: "?b = setStatusConditionWithMessage t' ConditionFalse r1 m1 a"
    by (simp add: MarkInvalid_def)
  have sb: "succeededCondition ?b =
      Some \<lparr>Type_cond = ''Succeeded'', Status_cond = ConditionFalse,
            ObservedGeneration = 0, LastTransitionTime = t', Reason = r1, Message = m1\<rparr>"
    unfolding b by (rule set_absent [OF n(1)])
  then have dn: "IsDone ?b" by (simp add: IsDone_succeededCondition)
  have cb: "CompletionTime (Status ?b) = None"
    unfolding b using ct by (simp add: set_frame)
  let ?b' = "?b\<lparr>Status := (Status ?b)\<lparr>CompletionTime := Some now\<rparr>\<rparr>"
  have f: "MarkFailed now now' r2 m2 ?b =
      setStatusConditionWithMessage now' ConditionFalse r2 m2 ?b'"
    using cb by (simp add: MarkFailed_def)
  have cf: "CompletionTime (Status (MarkFailed now now' r2 m2 ?b)) = Some now"
    unfolding f by (simp add: set_frame)
  have "succeededCondition ?b' =
      Some \<lparr>Type_cond = ''Succeeded'', Status_cond = ConditionFalse,
            ObservedGeneration = 0, LastTransitionTime = t', Reason = r1, Message = m1\<rparr>"
    using sb by (simp add: succeededCondition_frame)
  from set_present [OF this, of now' ConditionFalse r2 m2]
  have sf: "succeededCondition (MarkFailed now now' r2 m2 ?b) =
      Some \<lparr>Type_cond = ''Succeeded'', Status_cond = ConditionFalse,
            ObservedGeneration = 0, LastTransitionTime = t', Reason = r2, Message = m2\<rparr>"
    unfolding f by simp
  from cf cb have "MarkFailed now now' r2 m2 ?b \<noteq> ?b" by auto
  with dn cb cf sf show ?thesis by blast
qed

theorem MarkInvalid_then_MarkFailed_witness:
  "fresh freshSnapshot \<and>
   IsDone (MarkInvalid 6 ''Error'' ''x'' freshSnapshot) \<and>
   CompletionTime (Status (MarkFailed 7 8 ''TestsFailed'' ''y''
       (MarkInvalid 6 ''Error'' ''x'' freshSnapshot))) = Some 7 \<and>
   succeededCondition (MarkFailed 7 8 ''TestsFailed'' ''y''
       (MarkInvalid 6 ''Error'' ''x'' freshSnapshot)) =
     Some \<lparr>Type_cond = ''Succeeded'', Status_cond = ConditionFalse,
           ObservedGeneration = 0, LastTransitionTime = 6,
           Reason = ''TestsFailed'', Message = ''y''\<rparr>"
  using MarkInvalid_then_MarkFailed [of freshSnapshot 6 "''Error''" "''x''" 7 8
      "''TestsFailed''" "''y''"]
  by (simp add: eval_defs)

section \<open>The upsert of the Succeeded condition\<close>

text \<open>
  C8. Upserting the Succeeded condition twice through
  \<^verbatim>\<open>setStatusConditionWithMessage\<close> with the same status leaves its
  \<^verbatim>\<open>lastTransitionTime\<close> as the first upsert left it; a second upsert with another
  status sets it to the clock reading of that call. The same on a condition that is
  already there: an upsert with its status keeps \<^verbatim>\<open>lastTransitionTime\<close>, an upsert with
  another status sets it to the clock reading, which changes it whenever the clock does
  not read the very instant stored.
\<close>

theorem upsert_lastTransitionTime:
  "lastTransition (setStatusConditionWithMessage t' s r' m'
       (setStatusConditionWithMessage t s r m a)) =
     lastTransition (setStatusConditionWithMessage t s r m a) \<and>
   (s' \<noteq> s \<longrightarrow>
      lastTransition (setStatusConditionWithMessage t' s' r' m'
          (setStatusConditionWithMessage t s r m a)) = Some t') \<and>
   (succeededCondition a = Some c \<and> Status_cond c = s \<longrightarrow>
      lastTransition (setStatusConditionWithMessage t s r m a) = lastTransition a) \<and>
   (succeededCondition a = Some c \<and> Status_cond c \<noteq> s \<longrightarrow>
      lastTransition (setStatusConditionWithMessage t s r m a) = Some t \<and>
      (t \<noteq> LastTransitionTime c \<longrightarrow>
         lastTransition (setStatusConditionWithMessage t s r m a) \<noteq> lastTransition a))"
proof -
  let ?a1 = "setStatusConditionWithMessage t s r m a"
  from set_status [of t s r m a] obtain d where
    d: "succeededCondition ?a1 = Some d" "Status_cond d = s" by blast
  from set_present [OF d(1), of t' s r' m'] d(2)
  have same: "lastTransition (setStatusConditionWithMessage t' s r' m' ?a1) =
      lastTransition ?a1"
    by (simp add: lastTransition_def d(1))
  have diff: "lastTransition (setStatusConditionWithMessage t' s' r' m' ?a1) = Some t'"
    if "s' \<noteq> s"
    using set_present [OF d(1), of t' s' r' m'] d(2) that
    by (simp add: lastTransition_def)
  have keep: "lastTransition ?a1 = lastTransition a"
    if "succeededCondition a = Some c \<and> Status_cond c = s"
    using set_present [of a c t s r m] that by (simp add: lastTransition_def)
  have refresh: "lastTransition ?a1 = Some t \<and>
      (t \<noteq> LastTransitionTime c \<longrightarrow> lastTransition ?a1 \<noteq> lastTransition a)"
    if "succeededCondition a = Some c \<and> Status_cond c \<noteq> s"
    using set_present [of a c t s r m] that by (simp add: lastTransition_def)
  from same diff keep refresh show ?thesis by blast
qed

theorem upsert_lastTransitionTime_witness:
  "succeededCondition failedSnapshot =
     Some \<lparr>Type_cond = ''Succeeded'', Status_cond = ConditionFalse,
           ObservedGeneration = 0, LastTransitionTime = 6,
           Reason = ''Error'', Message = ''x''\<rparr> \<and>
   lastTransition failedSnapshot = Some 6 \<and>
   lastTransition (setStatusConditionWithMessage 9 ConditionFalse ''TestsFailed'' ''y''
       failedSnapshot) = Some 6 \<and>
   lastTransition (setStatusConditionWithMessage 9 ConditionTrue ''Succeeded'' ''''
       failedSnapshot) = Some 9 \<and>
   lastTransition (setStatusConditionWithMessage 12 ConditionUnknown ''TestsRunning'' ''''
       (setStatusConditionWithMessage 9 ConditionTrue ''Succeeded'' '''' failedSnapshot)) =
     Some 12"
  using upsert_lastTransitionTime
      [where a = failedSnapshot and s = ConditionFalse and s' = ConditionTrue
         and t = 9 and r = "''TestsFailed''" and m = "''y''"
         and t' = 12 and r' = "''Succeeded''" and m' = "''''"
         and c = "\<lparr>Type_cond = ''Succeeded'', Status_cond = ConditionFalse,
                   ObservedGeneration = 0, LastTransitionTime = 6,
                   Reason = ''Error'', Message = ''x''\<rparr>"]
    upsert_lastTransitionTime
      [where a = failedSnapshot and s = ConditionTrue and s' = ConditionUnknown
         and t = 9 and r = "''Succeeded''" and m = "''''"
         and t' = 12 and r' = "''TestsRunning''" and m' = "''''"
         and c = "\<lparr>Type_cond = ''Succeeded'', Status_cond = ConditionFalse,
                   ObservedGeneration = 0, LastTransitionTime = 6,
                   Reason = ''Error'', Message = ''x''\<rparr>"]
  by (simp add: eval_defs)

text \<open>
  C9. A snapshot with at most one condition record per type keeps that property under
  every call of \<^verbatim>\<open>MarkRunning\<close>, \<^verbatim>\<open>MarkFailed\<close>, \<^verbatim>\<open>MarkInvalid\<close> and
  \<^verbatim>\<open>MarkSucceeded\<close>. Where a record of type \<^verbatim>\<open>"Succeeded"\<close> exists, at index \<open>i\<close>, the
  call changes the list at that index at most, and the record there is still of type
  \<^verbatim>\<open>"Succeeded"\<close>: it is replaced in place, and nothing is appended.
\<close>

theorem operations_keep_onePerType:
  assumes "onePerType (Conditions (Status a))"
  shows "onePerType (Conditions (Status (exec op a))) \<and>
         (\<forall>i. FindStatusCondition (Conditions (Status a)) ''Succeeded'' = Some i \<longrightarrow>
              Conditions (Status (exec op a)) =
                (Conditions (Status a))[i := Conditions (Status (exec op a)) ! i] \<and>
              Type_cond (Conditions (Status (exec op a)) ! i) = ''Succeeded'')"
proof -
  from exec_cases [of op a] show ?thesis
  proof
    assume e: "exec op a = a"
    with assms Find_Some_props [of "Conditions (Status a)" "''Succeeded''"]
    show ?thesis by auto
  next
    assume "\<exists>t s r m b. exec op a = setStatusConditionWithMessage t s r m b \<and>
        Conditions (Status b) = Conditions (Status a)"
    then obtain t s r m b where
      e: "exec op a = setStatusConditionWithMessage t s r m b" and
      c: "Conditions (Status b) = Conditions (Status a)" by blast
    from assms c have "onePerType (Conditions (Status b))" by simp
    from set_onePerType [OF this] e have one: "onePerType (Conditions (Status (exec op a)))"
      by simp
    have place: "Conditions (Status (exec op a)) =
                (Conditions (Status a))[i := Conditions (Status (exec op a)) ! i] \<and>
              Type_cond (Conditions (Status (exec op a)) ! i) = ''Succeeded''"
      if f: "FindStatusCondition (Conditions (Status a)) ''Succeeded'' = Some i" for i
    proof -
      from f c have fb: "FindStatusCondition (Conditions (Status b)) ''Succeeded'' = Some i"
        by simp
      from set_in_place [OF fb, of t s r m] e c
      have p: "Conditions (Status (exec op a)) =
                (Conditions (Status a))[i := Conditions (Status (exec op a)) ! i]"
        by simp
      from Find_Some_props [OF f] have il: "i < length (Conditions (Status a))"
        and ty: "Type_cond (Conditions (Status a) ! i) = ''Succeeded''" by simp_all
      from Find_None_iff [of "Conditions (Status b)" "''Succeeded''"] fb
      have "''Succeeded'' \<in> Type_cond ` set (Conditions (Status b))" by auto
      with set_types [of t s r m b] e c
      have "map Type_cond (Conditions (Status (exec op a))) =
          map Type_cond (Conditions (Status a))" by simp
      then have "map Type_cond (Conditions (Status (exec op a))) ! i =
          map Type_cond (Conditions (Status a)) ! i" by simp
      moreover from p il have "i < length (Conditions (Status (exec op a)))"
        by (metis length_list_update)
      ultimately have "Type_cond (Conditions (Status (exec op a)) ! i) = ''Succeeded''"
        using il ty by simp
      with p show ?thesis by blast
    qed
    from one place show ?thesis by blast
  qed
qed

theorem operations_keep_onePerType_witness:
  "onePerType (Conditions (Status failedSnapshot)) \<and>
   FindStatusCondition (Conditions (Status failedSnapshot)) ''Succeeded'' = Some 0 \<and>
   onePerType (Conditions (Status (exec (OpMarkRunning 7 8) failedSnapshot))) \<and>
   map Type_cond (Conditions (Status (exec (OpMarkRunning 7 8) failedSnapshot))) =
     [''Succeeded''] \<and>
   onePerType (Conditions (Status readySnapshot)) \<and>
   map Type_cond (Conditions (Status (exec (OpMarkInvalid 8 ''Error'' ''x'') readySnapshot))) =
     [''Ready'', ''Succeeded'']"
  using operations_keep_onePerType [of failedSnapshot "OpMarkRunning 7 8"]
    operations_keep_onePerType [of readySnapshot "OpMarkInvalid 8 ''Error'' ''x''"]
  by (simp add: eval_defs)

end
